theory Spec2Isabelle
  imports Complex_Main
begin

section \<open>The content-editable mixin of the canvas editor\<close>

text \<open>
  A shallow embedding of \<^verbatim>\<open>addon/mixins/content-editable.js\<close>. The mixin turns the
  \<^verbatim>\<open>input\<close>, \<^verbatim>\<open>keydown\<close> and \<^verbatim>\<open>paste\<close> events of one editable block into
  writes to the block and calls to the enclosing editor.

  Every handler is a function from the component's state to a completion (normal return
  or a thrown JavaScript error) and the state reached. What the handler does to the world
  is kept in the state: the flags \<^verbatim>\<open>preventDefault\<close> and \<^verbatim>\<open>stopPropagation\<close> set on
  the event, and one trace, in program order, of the calls to the host, of the runs of
  the render observer and of the editing commands sent to the document.
\<close>

subsection \<open>Data\<close>

text \<open>
  JavaScript numbers are IEEE 754 double-precision numbers. A finite number is given by
  its value, a rational; the two zeros are not told apart, since neither the subtraction
  nor the comparison used here distinguishes them.
\<close>

datatype js_number = Finite rat | PlusInfinity | MinusInfinity | NaN

fun isFinite :: "js_number \<Rightarrow> bool" where
  "isFinite (Finite q) = True"
| "isFinite x = False"

text \<open>The number of binary digits of a natural number.\<close>

fun bitLength :: "nat \<Rightarrow> nat" where
  "bitLength n = (if n = 0 then 0 else Suc (bitLength (n div 2)))"

declare bitLength.simps [simp del]

definition pow2 :: "int \<Rightarrow> rat" where
  "pow2 e = (if 0 \<le> e then 2 ^ nat e else 1 / 2 ^ nat (- e))"

text \<open>For \<open>q > 0\<close>, the exponent \<open>k\<close> with \<open>2\<^sup>k \<le> q < 2\<^sup>k\<^sup>+\<^sup>1\<close>.\<close>

definition floorLog2 :: "rat \<Rightarrow> int" where
  "floorLog2 q =
     (if 1 \<le> q then int (bitLength (nat \<lfloor>q\<rfloor>)) - 1
      else - int (bitLength (nat (\<lceil>1 / q\<rceil> - 1))))"

text \<open>The nearest integer; of two equally near ones, the even one.\<close>

definition roundHalfEven :: "rat \<Rightarrow> int" where
  "roundHalfEven x =
     (let f = \<lfloor>x\<rfloor>; r = x - of_int f in
      if r < 1 / 2 then f
      else if 1 / 2 < r then f + 1
      else if even f then f else f + 1)"

text \<open>
  The double nearest to a rational (round to nearest, ties to even). The significand has
  53 binary digits, so the last digit of a number in \<open>[2\<^sup>k, 2\<^sup>k\<^sup>+\<^sup>1)\<close> weighs
  \<open>2\<^sup>k\<^sup>-\<^sup>5\<^sup>2\<close>; below \<open>2\<^sup>-\<^sup>1\<^sup>0\<^sup>2\<^sup>2\<close> (the subnormal numbers) it weighs \<open>2\<^sup>-\<^sup>1\<^sup>0\<^sup>7\<^sup>4\<close>. A result
  of magnitude \<open>2\<^sup>1\<^sup>0\<^sup>2\<^sup>4\<close> is out of range and becomes an infinity.
\<close>

definition round64 :: "rat \<Rightarrow> js_number" where
  "round64 q =
     (if q = 0 then Finite 0
      else let e = max (floorLog2 \<bar>q\<bar>) (- 1022) - 52;
               r = of_int (roundHalfEven (\<bar>q\<bar> / pow2 e)) * pow2 e
           in if 2 ^ 1024 \<le> r then (if 0 < q then PlusInfinity else MinusInfinity)
              else Finite (if 0 < q then r else - r))"

text \<open>The operators \<^verbatim>\<open>-\<close>, \<^verbatim>\<open>>\<close> and \<^verbatim>\<open><=\<close> on numbers.\<close>

fun jsSub :: "js_number \<Rightarrow> js_number \<Rightarrow> js_number" where
  "jsSub (Finite a) (Finite b) = round64 (a - b)"
| "jsSub NaN y = NaN"
| "jsSub x NaN = NaN"
| "jsSub PlusInfinity PlusInfinity = NaN"
| "jsSub MinusInfinity MinusInfinity = NaN"
| "jsSub PlusInfinity y = PlusInfinity"
| "jsSub MinusInfinity y = MinusInfinity"
| "jsSub x PlusInfinity = MinusInfinity"
| "jsSub x MinusInfinity = PlusInfinity"

fun jsGreater :: "js_number \<Rightarrow> js_number \<Rightarrow> bool" where
  "jsGreater (Finite a) (Finite b) = (b < a)"
| "jsGreater NaN y = False"
| "jsGreater x NaN = False"
| "jsGreater PlusInfinity PlusInfinity = False"
| "jsGreater PlusInfinity y = True"
| "jsGreater MinusInfinity y = False"
| "jsGreater x MinusInfinity = True"
| "jsGreater x PlusInfinity = False"

fun jsLessEq :: "js_number \<Rightarrow> js_number \<Rightarrow> bool" where
  "jsLessEq (Finite a) (Finite b) = (a \<le> b)"
| "jsLessEq NaN y = False"
| "jsLessEq x NaN = False"
| "jsLessEq MinusInfinity y = True"
| "jsLessEq x PlusInfinity = True"
| "jsLessEq PlusInfinity y = False"
| "jsLessEq x MinusInfinity = False"

text \<open>A client rectangle, in pixels of the viewport.\<close>

record rect =
  rectTop :: js_number
  rectBottom :: js_number
  rectLeft :: js_number
  rectRight :: js_number

text \<open>DOM nodes: a text node, or an element with its node name and children.\<close>

datatype node = TextNode string | ElementNode string "node list"

fun nodeName :: "node \<Rightarrow> string" where
  "nodeName (TextNode t) = ''#text''"
| "nodeName (ElementNode n cs) = n"

text \<open>\<^verbatim>\<open>textContent\<close>: the text of all descendant text nodes, in document order.\<close>

fun nodeTextContent :: "node \<Rightarrow> string" where
  "nodeTextContent (TextNode t) = t"
| "nodeTextContent (ElementNode n cs) = concat (map nodeTextContent cs)"

record element =
  childNodes :: "node list"

definition textContent :: "element \<Rightarrow> string" where
  "textContent e = concat (map nodeTextContent (childNodes e))"

text \<open>
  The block of the document tree that the component edits. \<^verbatim>\<open>blockId\<close> stands for the
  identity of the JavaScript object; a property that was never set (\<^verbatim>\<open>undefined\<close>
  or \<^verbatim>\<open>null\<close>) is \<open>None\<close>.
\<close>

record block =
  blockId :: nat
  content :: "string option"
  lastContent :: "string option"

text \<open>What \<^verbatim>\<open>TextManipulation.getManipulation\<close> returns.\<close>

record manipulation =
  textBeforeSelection :: string
  textAfterSelection :: string

text \<open>
  What the handlers read from collaborators that are not part of this file, at the time
  of one event: the browser (user agent, layout) and the selection mixin. Each handler
  reads them before it changes anything, so one snapshot per event is exact.
  \<^verbatim>\<open>currentRangeRect\<close> is \<open>None\<close> when the selection mixin has no rectangle to report,
  \<^verbatim>\<open>innerText\<close> is \<open>None\<close> on a browser without that property.
\<close>

record env =
  isFirefox :: bool
  innerText :: "string option"
  clientRects :: "rect list"
  selectionIsCollapsed :: bool
  currentRangeRect :: "rect option"
  getManipulation :: manipulation

text \<open>The event: what the handlers read of it.\<close>

record event =
  key :: "string option"
  keyCode :: int
  shiftKey :: bool
  clipboardData :: "(string \<times> string) list"

text \<open>
  The calls the component makes to the enclosing editor, with their arguments: the five
  callbacks it is given as properties, and the two methods \<^verbatim>\<open>blockContentUpdatedLocally\<close>
  and \<^verbatim>\<open>newBlockInsertedLocally\<close> that the component using the mixin provides. Their
  bodies are not part of this file; the model records each call and the state goes on
  unchanged.
\<close>

datatype host_call =
    OnBlockDeletedLocally block string
  | OnNavigateLeft block
  | OnNavigateRight block
  | OnNavigateUp block rect
  | OnNavigateDown block rect
  | BlockContentUpdatedLocally
  | NewBlockInsertedLocally string

text \<open>The two writes \<^verbatim>\<open>renderBlockContent\<close> makes through jQuery.\<close>

datatype dom_write = JqText string | JqHtml string

text \<open>
  One entry of the trace. A host call is recorded with the value the guard
  \<^verbatim>\<open>isUpdatingBlockContent\<close> has when the call is made. A run of the render observer is
  recorded as skipped (it found the guard set) or with the write it made.
\<close>

datatype effect =
    HostCall host_call bool
  | RenderSkipped
  | Rendered dom_write
  | ExecCommand string string

record session =
  isUpdatingBlockContent :: bool
  block :: block
  element :: element
  defaultPrevented :: bool
  propagationStopped :: bool
  trace :: "effect list"

datatype js_error = TypeError

datatype completion = Normal | Throw js_error

datatype js_value = JsString string | JsNumber int

subsection \<open>Reading the trace\<close>

fun hostCalls :: "effect list \<Rightarrow> host_call list" where
  "hostCalls [] = []"
| "hostCalls (HostCall c g # es) = c # hostCalls es"
| "hostCalls (e # es) = hostCalls es"

fun renderRuns :: "effect list \<Rightarrow> effect list" where
  "renderRuns [] = []"
| "renderRuns (RenderSkipped # es) = RenderSkipped # renderRuns es"
| "renderRuns (Rendered w # es) = Rendered w # renderRuns es"
| "renderRuns (e # es) = renderRuns es"

fun domWrites :: "effect list \<Rightarrow> dom_write list" where
  "domWrites [] = []"
| "domWrites (Rendered w # es) = w # domWrites es"
| "domWrites (e # es) = domWrites es"

text \<open>The part of the trace that a step from \<open>s\<close> to \<open>s'\<close> has added.\<close>

definition added :: "session \<Rightarrow> session \<Rightarrow> effect list" where
  "added s s' = drop (length (trace s)) (trace s')"

subsection \<open>JavaScript and framework primitives\<close>

text \<open>
  A JavaScript string is falsy when it is \<^verbatim>\<open>undefined\<close>, \<^verbatim>\<open>null\<close> or empty; the
  model writes each such test as a case distinction on the option and an emptiness test.
\<close>

text \<open>\<^verbatim>\<open>text.replace(/\n$/, '')\<close>: without the multiline flag, \<^verbatim>\<open>$\<close> is the end of
  the string, so at most the last character goes.\<close>

definition replaceTrailingNewline :: "string \<Rightarrow> string" where
  "replaceTrailingNewline t = (if t \<noteq> [] \<and> last t = CHR 0x0A then butlast t else t)"

definition stopPropagation :: "session \<Rightarrow> session" where
  "stopPropagation s = s\<lparr>propagationStopped := True\<rparr>"

definition preventDefault :: "session \<Rightarrow> session" where
  "preventDefault s = s\<lparr>defaultPrevented := True\<rparr>"

definition callHost :: "host_call \<Rightarrow> session \<Rightarrow> session" where
  "callHost c s = s\<lparr>trace := trace s @ [HostCall c (isUpdatingBlockContent s)]\<rparr>"

text \<open>\<^verbatim>\<open>DataTransfer.getData\<close>: the data stored for the format, or the empty string.\<close>

definition getData :: "(string \<times> string) list \<Rightarrow> string \<Rightarrow> string" where
  "getData cd fmt = (case map_of cd fmt of None \<Rightarrow> [] | Some t \<Rightarrow> t)"

definition execCommand :: "string \<Rightarrow> string \<Rightarrow> session \<Rightarrow> session" where
  "execCommand cmd v s = s\<lparr>trace := trace s @ [ExecCommand cmd v]\<rparr>"

text \<open>jQuery's \<^verbatim>\<open>.text(c)\<close> and \<^verbatim>\<open>.html('<br>')\<close> on the component's element.\<close>

definition jqText :: "string \<Rightarrow> session \<Rightarrow> session" where
  "jqText c s = s\<lparr>element := (element s)\<lparr>childNodes := [TextNode c]\<rparr>,
                  trace := trace s @ [Rendered (JqText c)]\<rparr>"

definition jqHtmlBr :: "session \<Rightarrow> session" where
  "jqHtmlBr s = s\<lparr>element := (element s)\<lparr>childNodes := [ElementNode ''BR'' []]\<rparr>,
                  trace := trace s @ [Rendered (JqHtml ''<br>'')]\<rparr>"

subsection \<open>The mixin\<close>

definition getElementRect :: "string \<Rightarrow> env \<Rightarrow> rect option" where
  "getElementRect side v =
     (let rects = clientRects v in
      if rects = [] then None
      else if side = ''top'' then Some (hd rects)
      else Some (last rects))"

text \<open>
  In \<^verbatim>\<open>element.innerText || element.textContent\<close> the first operand is taken unless it
  is \<^verbatim>\<open>undefined\<close> or the empty string.
\<close>

definition getElementText :: "env \<Rightarrow> element \<Rightarrow> string" where
  "getElementText v e =
     (if length (childNodes e) = 1 \<and> nodeName (hd (childNodes e)) = ''BR'' then []
      else let text = (case innerText v of
                         None \<Rightarrow> textContent e
                       | Some t \<Rightarrow> if t \<noteq> [] then t else textContent e)
           in if isFirefox v then replaceTrailingNewline text else text)"

definition renderBlockContent :: "session \<Rightarrow> session" where
  "renderBlockContent s =
     (if isUpdatingBlockContent s then s\<lparr>trace := trace s @ [RenderSkipped]\<rparr>
      else (case content (block s) of
              None \<Rightarrow> jqHtmlBr s
            | Some c \<Rightarrow> if c \<noteq> [] then jqText c s else jqHtmlBr s))"

text \<open>The observer also runs when the element is inserted into the document.\<close>

definition didInsertElement :: "session \<Rightarrow> session" where
  "didInsertElement s = renderBlockContent s"

text \<open>
  \<^verbatim>\<open>this.set('block.content', v)\<close>. \<^verbatim>\<open>renderBlockContent\<close> is declared an observer of
  \<^verbatim>\<open>block.content\<close>: the framework runs it inside the \<^verbatim>\<open>set\<close>, after the property has
  its new value, when the value has changed. This is the rendering that the guard
  \<^verbatim>\<open>isUpdatingBlockContent\<close> is there to prevent.
\<close>

definition set_block_content :: "string option \<Rightarrow> session \<Rightarrow> session" where
  "set_block_content v s =
     (let s' = s\<lparr>block := (block s)\<lparr>content := v\<rparr>\<rparr> in
      if v \<noteq> content (block s) then renderBlockContent s' else s')"

definition set_block_lastContent :: "string option \<Rightarrow> session \<Rightarrow> session" where
  "set_block_lastContent v s = s\<lparr>block := (block s)\<lparr>lastContent := v\<rparr>\<rparr>"

definition setBlockContentFromInput :: "string \<Rightarrow> bool \<Rightarrow> session \<Rightarrow> session" where
  "setBlockContentFromInput c preventRerender s =
     (let s1 = (if preventRerender then s\<lparr>isUpdatingBlockContent := True\<rparr> else s);
          s2 = set_block_lastContent (content (block s1)) s1;
          s3 = set_block_content (Some c) s2;
          s4 = (if preventRerender then s3\<lparr>isUpdatingBlockContent := False\<rparr> else s3)
      in callHost BlockContentUpdatedLocally s4)"

definition input :: "env \<Rightarrow> session \<Rightarrow> completion \<times> session" where
  "input v s = (Normal, setBlockContentFromInput (getElementText v (element s)) True s)"

definition paste :: "event \<Rightarrow> session \<Rightarrow> completion \<times> session" where
  "paste evt s =
     (let s1 = preventDefault s;
          text = getData (clipboardData evt) ''text/plain''
      in (Normal, execCommand ''insertText'' text s1))"

definition backspace :: "env \<Rightarrow> session \<Rightarrow> completion \<times> session" where
  "backspace v s =
     (let m = getManipulation v in
      if textBeforeSelection m \<noteq> [] \<or> \<not> selectionIsCollapsed v then (Normal, s)
      else (Normal, callHost (OnBlockDeletedLocally (block s) (textAfterSelection m))
                      (preventDefault (stopPropagation s))))"

definition navigateDown :: "env \<Rightarrow> session \<Rightarrow> completion \<times> session" where
  "navigateDown v s =
     (case getElementRect ''bottom'' v of
        None \<Rightarrow> (Throw TypeError, s)
      | Some elementRect \<Rightarrow>
          (case currentRangeRect v of
             None \<Rightarrow> (Throw TypeError, s)
           | Some rangeRect \<Rightarrow>
               (let distanceFromBottom = jsSub (rectBottom elementRect) (rectBottom rangeRect) in
                if jsGreater distanceFromBottom (Finite 10) then (Normal, s)
                else (Normal, callHost (OnNavigateDown (block s) rangeRect)
                                (preventDefault (stopPropagation s))))))"

definition navigateLeft :: "env \<Rightarrow> session \<Rightarrow> completion \<times> session" where
  "navigateLeft v s =
     (if textBeforeSelection (getManipulation v) \<noteq> [] then (Normal, s)
      else (Normal, callHost (OnNavigateLeft (block s)) (preventDefault (stopPropagation s))))"

definition navigateRight :: "env \<Rightarrow> session \<Rightarrow> completion \<times> session" where
  "navigateRight v s =
     (if textAfterSelection (getManipulation v) \<noteq> [] then (Normal, s)
      else (Normal, callHost (OnNavigateRight (block s)) (preventDefault (stopPropagation s))))"

definition navigateUp :: "env \<Rightarrow> session \<Rightarrow> completion \<times> session" where
  "navigateUp v s =
     (case getElementRect ''top'' v of
        None \<Rightarrow> (Throw TypeError, s)
      | Some elementRect \<Rightarrow>
          (case currentRangeRect v of
             None \<Rightarrow> (Throw TypeError, s)
           | Some rangeRect \<Rightarrow>
               (let distanceFromTop = jsSub (rectTop rangeRect) (rectTop elementRect) in
                if jsGreater distanceFromTop (Finite 10) then (Normal, s)
                else (Normal, callHost (OnNavigateUp (block s) rangeRect)
                                (preventDefault (stopPropagation s))))))"

definition newBlockAtSplit :: "env \<Rightarrow> session \<Rightarrow> session" where
  "newBlockAtSplit v s =
     (let m = getManipulation v;
          s1 = setBlockContentFromInput (textBeforeSelection m) False s
      in callHost (NewBlockInsertedLocally (textAfterSelection m)) s1)"

text \<open>\<^verbatim>\<open>evt.originalEvent.key || evt.originalEvent.keyCode\<close>\<close>

definition keyOrKeyCode :: "event \<Rightarrow> js_value" where
  "keyOrKeyCode evt =
     (case key evt of
        None \<Rightarrow> JsNumber (keyCode evt)
      | Some k \<Rightarrow> if k \<noteq> [] then JsString k else JsNumber (keyCode evt))"

definition keyDown :: "env \<Rightarrow> event \<Rightarrow> session \<Rightarrow> completion \<times> session" where
  "keyDown v evt s =
     (let k = keyOrKeyCode evt in
      if k = JsString ''ArrowLeft'' \<or> k = JsNumber 37 then navigateLeft v s
      else if k = JsString ''ArrowUp'' \<or> k = JsNumber 38 then navigateUp v s
      else if k = JsString ''ArrowRight'' \<or> k = JsNumber 39 then navigateRight v s
      else if k = JsString ''ArrowDown'' \<or> k = JsNumber 40 then navigateDown v s
      else if k = JsString ''Backspace'' \<or> k = JsNumber 8 then backspace v s
      else if k = JsString ''Enter'' \<or> k = JsNumber 13 then
        (if shiftKey evt then (Normal, s)
         else (Normal, newBlockAtSplit v (preventDefault (stopPropagation s))))
      else (Normal, s))"

subsection \<open>The component over its life\<close>

text \<open>
  The component declares \<^verbatim>\<open>isUpdatingBlockContent: false\<close>; when its element is
  inserted the framework runs the render observer once. From then on the browser
  delivers one event at a time and each handler runs to completion; an error thrown by a
  handler ends that handler only. Each event is a new event object, so the two flags
  start cleared, and an \<^verbatim>\<open>input\<close> event comes with the DOM as the user's edit left it.
\<close>

definition mounted :: "block \<Rightarrow> session" where
  "mounted b =
     didInsertElement
       \<lparr>isUpdatingBlockContent = False, block = b, element = \<lparr>childNodes = []\<rparr>,
        defaultPrevented = False, propagationStopped = False, trace = []\<rparr>"

datatype dom_event =
    InputEvent env element
  | KeyDownEvent env event
  | PasteEvent event

fun dispatch :: "dom_event \<Rightarrow> session \<Rightarrow> completion \<times> session" where
  "dispatch (InputEvent v el) s =
     input v (s\<lparr>element := el, defaultPrevented := False, propagationStopped := False\<rparr>)"
| "dispatch (KeyDownEvent v evt) s =
     keyDown v evt (s\<lparr>defaultPrevented := False, propagationStopped := False\<rparr>)"
| "dispatch (PasteEvent evt) s =
     paste evt (s\<lparr>defaultPrevented := False, propagationStopped := False\<rparr>)"

fun run :: "dom_event list \<Rightarrow> session \<Rightarrow> session" where
  "run [] s = s"
| "run (d # ds) s = run ds (snd (dispatch d s))"

subsection \<open>What the claims observe\<close>

text \<open>
  A handler has taken the event over: it returned normally, it stopped the propagation
  and suppressed the default action, and the host calls it made are exactly the one
  call \<open>c\<close>. A handler that leaves the event to the browser returns \<open>(Normal, s)\<close>,
  the state it was given.
\<close>

definition handled :: "session \<Rightarrow> completion \<times> session \<Rightarrow> host_call \<Rightarrow> bool" where
  "handled s r c =
     (fst r = Normal \<and> defaultPrevented (snd r) \<and> propagationStopped (snd r) \<and>
      hostCalls (added s (snd r)) = [c])"

subsection \<open>Sample inputs\<close>

text \<open>
  A block holding \<^verbatim>\<open>ab\<close>, rendered on two lines whose boxes span 100 to 120 and 180 to
  200 pixels, with the guard released as the component declares it
  (\<^verbatim>\<open>isUpdatingBlockContent: false\<close>).
\<close>

definition sampleBlock :: block where
  "sampleBlock = \<lparr>blockId = 1, content = Some ''ab'', lastContent = None\<rparr>"

definition sampleSession :: session where
  "sampleSession =
     \<lparr>isUpdatingBlockContent = False, block = sampleBlock,
      element = \<lparr>childNodes = [TextNode ''ab'']\<rparr>,
      defaultPrevented = False, propagationStopped = False, trace = []\<rparr>"

definition lineBox :: "rat \<Rightarrow> rat \<Rightarrow> rect" where
  "lineBox t b =
     \<lparr>rectTop = Finite t, rectBottom = Finite b, rectLeft = Finite 0, rectRight = Finite 300\<rparr>"

definition caretAt :: "rat \<Rightarrow> rat \<Rightarrow> rect" where
  "caretAt t b =
     \<lparr>rectTop = Finite t, rectBottom = Finite b, rectLeft = Finite 40, rectRight = Finite 41\<rparr>"

definition sampleEnv :: "rect option \<Rightarrow> string \<Rightarrow> string \<Rightarrow> bool \<Rightarrow> env" where
  "sampleEnv r before after collapsed =
     \<lparr>isFirefox = False, innerText = Some ''ab'',
      clientRects = [lineBox 100 120, lineBox 180 200],
      selectionIsCollapsed = collapsed, currentRangeRect = r,
      getManipulation = \<lparr>textBeforeSelection = before, textAfterSelection = after\<rparr>\<rparr>"

text \<open>A coordinate just above the viewport's origin.\<close>

definition justAbove :: rat where
  "justAbove = - (1 / 2 ^ 60)"

definition keyEvent :: "string \<Rightarrow> bool \<Rightarrow> event" where
  "keyEvent k shift = \<lparr>key = Some k, keyCode = 0, shiftKey = shift, clipboardData = []\<rparr>"

definition pasteEvent :: "(string \<times> string) list \<Rightarrow> event" where
  "pasteEvent cd = \<lparr>key = None, keyCode = 0, shiftKey = False, clipboardData = cd\<rparr>"

lemmas sample_defs =
  sampleBlock_def sampleSession_def lineBox_def caretAt_def sampleEnv_def keyEvent_def
  pasteEvent_def

lemmas round64_eval =
  round64_def floorLog2_def bitLength.simps pow2_def roundHalfEven_def Let_def

section \<open>Properties\<close>

subsection \<open>Double arithmetic\<close>

text \<open>
  The rounding is to a nearest double: \<open>floorLog2\<close> finds the binade, \<open>roundHalfEven\<close> is
  within one half of its argument, and so a finite result of \<open>round64\<close> is a multiple of
  the unit in the last place, with a significand of at most 53 binary digits, that lies
  within half a unit of the exact value.
\<close>

lemma bitLength_bounds:
  "0 < n \<Longrightarrow> 2 ^ (bitLength n - 1) \<le> n \<and> n < 2 ^ bitLength n"
proof (induction n rule: bitLength.induct)
  case (1 n)
  show ?case
  proof (cases "n div 2 = 0")
    case True
    with "1.prems" have "n = 1" by (simp add: div_eq_0_iff)
    then show ?thesis by (simp add: bitLength.simps)
  next
    case False
    then have pos: "0 < n div 2" by simp
    from "1.prems" have n0: "n \<noteq> 0" by simp
    from "1.IH" [OF n0 pos]
    have ih: "2 ^ (bitLength (n div 2) - 1) \<le> n div 2" "n div 2 < 2 ^ bitLength (n div 2)"
      by simp_all
    have bl: "bitLength n = Suc (bitLength (n div 2))"
      using n0 by (subst bitLength.simps) simp
    have bpos: "0 < bitLength (n div 2)"
      using pos by (subst bitLength.simps) simp
    then obtain k where k: "bitLength (n div 2) = Suc k" by (cases "bitLength (n div 2)") auto
    from ih k have "2 * 2 ^ k \<le> 2 * (n div 2)" by simp
    also have "\<dots> \<le> n" by simp
    finally have lo: "2 ^ (bitLength n - 1) \<le> n" by (simp add: bl k)
    from ih k have "n div 2 + 1 \<le> 2 ^ Suc k" by simp
    then have "2 * (n div 2) + 2 \<le> 2 * 2 ^ Suc k" by simp
    moreover have "n < 2 * (n div 2) + 2" by arith
    ultimately have hi: "n < 2 ^ bitLength n" by (simp add: bl k)
    from lo hi show ?thesis ..
  qed
qed

lemma pow2_powi: "pow2 e = 2 powi e"
  by (simp add: pow2_def power_int_def inverse_eq_divide power_one_over)

lemma pow2_pos: "0 < pow2 e"
  by (simp add: pow2_def)

lemma pow2_Suc: "pow2 (e + 1) = 2 * pow2 e"
  by (simp add: pow2_powi power_int_add)

lemma pow2_neg: "pow2 (- int n) = 1 / 2 ^ n"
  by (simp add: pow2_powi power_int_minus inverse_eq_divide)

lemma pow2_mono: "a \<le> b \<Longrightarrow> pow2 a \<le> pow2 b"
  by (simp add: pow2_powi power_int_increasing)

lemma floorLog2_bounds:
  assumes "0 < q"
  shows "pow2 (floorLog2 q) \<le> q \<and> q < pow2 (floorLog2 q + 1)"
proof (cases "1 \<le> q")
  case True
  define n where "n = nat \<lfloor>q\<rfloor>"
  have n1: "0 < n" using True by (simp add: n_def)
  have nq: "of_nat n \<le> q" "q < of_nat n + 1"
    using True unfolding n_def by (simp; linarith)+
  from bitLength_bounds [OF n1] obtain k where k: "bitLength n = Suc k"
    and lo: "2 ^ k \<le> n" and hi: "n < 2 ^ Suc k"
    by (cases "bitLength n") auto
  have fl: "floorLog2 q = int k"
    using True by (simp add: floorLog2_def n_def [symmetric] k)
  have "(2::rat) ^ k = of_nat (2 ^ k)" by simp
  also have "\<dots> \<le> of_nat n" using lo by (simp only: of_nat_le_iff)
  also have "\<dots> \<le> q" by (rule nq(1))
  finally have a: "pow2 (floorLog2 q) \<le> q" by (simp add: fl pow2_def)
  have "n + 1 \<le> 2 ^ Suc k" using hi by simp
  then have "(of_nat (n + 1)::rat) \<le> of_nat (2 ^ Suc k)" by (simp only: of_nat_le_iff)
  also have "\<dots> = 2 ^ Suc k" by simp
  finally have "q < 2 ^ Suc k" using nq(2) by simp
  then have b: "q < pow2 (floorLog2 q + 1)" by (simp add: fl pow2_def nat_add_distrib)
  from a b show ?thesis ..
next
  case False
  with assms have q: "0 < q" "q < 1" by simp_all
  define m where "m = nat (\<lceil>1 / q\<rceil> - 1)"
  have inv: "1 < 1 / q" using q by simp
  then have c2: "2 \<le> \<lceil>1 / q\<rceil>" by linarith
  then have m1: "0 < m" by (simp add: m_def)
  have mq: "of_nat m < 1 / q" "1 / q \<le> of_nat m + 1"
    using c2 unfolding m_def by (simp; linarith)+
  from bitLength_bounds [OF m1] obtain k where k: "bitLength m = Suc k"
    and lo: "2 ^ k \<le> m" and hi: "m < 2 ^ Suc k"
    by (cases "bitLength m") auto
  have fl: "floorLog2 q = - int (Suc k)"
    using False by (simp add: floorLog2_def m_def [symmetric] k)
  have "(2::rat) ^ k = of_nat (2 ^ k)" by simp
  also have "\<dots> \<le> of_nat m" using lo by (simp only: of_nat_le_iff)
  also have "\<dots> < 1 / q" by (rule mq(1))
  finally have "(2::rat) ^ k < 1 / q" .
  then have "q * 2 ^ k < 1" using q by (simp add: field_simps)
  moreover have "floorLog2 q + 1 = - int k" by (simp add: fl)
  ultimately have b: "q < pow2 (floorLog2 q + 1)"
    by (simp add: pow2_neg field_simps)
  have "m + 1 \<le> 2 ^ Suc k" using hi by simp
  then have "(of_nat (m + 1)::rat) \<le> of_nat (2 ^ Suc k)" by (simp only: of_nat_le_iff)
  also have "\<dots> = 2 ^ Suc k" by simp
  finally have "1 / q \<le> 2 ^ Suc k" using mq(2) by simp
  then have "1 \<le> q * 2 ^ Suc k" using q by (simp add: field_simps)
  then have a: "pow2 (floorLog2 q) \<le> q"
    unfolding fl by (simp only: pow2_neg) (simp add: field_simps)
  from a b show ?thesis ..
qed

lemma roundHalfEven_nearest: "\<bar>of_int (roundHalfEven x) - x\<bar> \<le> 1 / 2"
proof -
  define r where "r = x - of_int \<lfloor>x\<rfloor>"
  have r: "0 \<le> r" "r < 1" unfolding r_def by linarith+
  have x: "x = of_int \<lfloor>x\<rfloor> + r" by (simp add: r_def)
  consider "r < 1 / 2" | "1 / 2 < r" | "r = 1 / 2" by linarith
  then show ?thesis
  proof cases
    case 1
    then have "roundHalfEven x = \<lfloor>x\<rfloor>"
      unfolding roundHalfEven_def Let_def r_def by simp
    then show ?thesis using r 1 by (subst (2) x) simp
  next
    case 2
    then have "roundHalfEven x = \<lfloor>x\<rfloor> + 1"
      unfolding roundHalfEven_def Let_def r_def by simp
    then show ?thesis using r 2 by (subst (2) x) simp
  next
    case 3
    then have "roundHalfEven x = \<lfloor>x\<rfloor> \<or> roundHalfEven x = \<lfloor>x\<rfloor> + 1"
      unfolding roundHalfEven_def Let_def r_def by simp
    moreover have "x = of_int \<lfloor>x\<rfloor> + 1 / 2" using x 3 by simp
    ultimately show ?thesis by (elim disjE) (simp, linarith)+
  qed
qed


lemma pow2_add: "pow2 (a + b) = pow2 a * pow2 b"
  by (simp add: pow2_powi power_int_add)

lemma roundHalfEven_nonneg: "0 \<le> x \<Longrightarrow> 0 \<le> roundHalfEven x"
  unfolding roundHalfEven_def Let_def by (simp add: zero_le_floor)

lemma round64_accuracy:
  assumes q: "q \<noteq> 0" and r: "round64 q = Finite r"
  shows "\<bar>r - q\<bar> \<le> pow2 (max (floorLog2 \<bar>q\<bar>) (- 1022) - 52) / 2 \<and>
         (\<exists>m. \<bar>r\<bar> = of_int m * pow2 (max (floorLog2 \<bar>q\<bar>) (- 1022) - 52) \<and> 0 \<le> m \<and> m \<le> 2 ^ 53)"
proof -
  define e where "e = max (floorLog2 \<bar>q\<bar>) (- 1022) - 52"
  define m where "m = roundHalfEven (\<bar>q\<bar> / pow2 e)"
  have p: "0 < pow2 e" by (rule pow2_pos)
  have m0: "0 \<le> m" unfolding m_def using p by (intro roundHalfEven_nonneg) simp
  have "round64 q =
      (if 2 ^ 1024 \<le> of_int m * pow2 e then (if 0 < q then PlusInfinity else MinusInfinity)
       else Finite (if 0 < q then of_int m * pow2 e else - (of_int m * pow2 e)))"
    unfolding round64_def Let_def e_def m_def using q by simp
  with r have rv: "r = (if 0 < q then of_int m * pow2 e else - (of_int m * pow2 e))"
    by (simp split: if_splits)
  have near: "\<bar>of_int m - \<bar>q\<bar> / pow2 e\<bar> \<le> 1 / 2"
    unfolding m_def by (rule roundHalfEven_nearest)
  have "\<bar>of_int m * pow2 e - \<bar>q\<bar>\<bar> = \<bar>of_int m - \<bar>q\<bar> / pow2 e\<bar> * pow2 e"
    using p by (simp add: abs_mult [symmetric] field_simps del: abs_mult)
  also have "\<dots> \<le> 1 / 2 * pow2 e"
    using near p by (intro mult_right_mono) simp_all
  finally have d: "\<bar>of_int m * pow2 e - \<bar>q\<bar>\<bar> \<le> pow2 e / 2" by simp
  have acc: "\<bar>r - q\<bar> \<le> pow2 e / 2"
    using d q by (cases "0 < q") (simp_all add: rv abs_if split: if_splits)
  have "\<bar>q\<bar> < pow2 (floorLog2 \<bar>q\<bar> + 1)"
    using floorLog2_bounds [of "\<bar>q\<bar>"] q by simp
  also have "\<dots> \<le> pow2 (e + 53)"
    by (intro pow2_mono) (simp add: e_def)
  also have "\<dots> = pow2 e * 2 ^ 53"
    by (simp add: pow2_add) (simp add: pow2_def)
  finally have "\<bar>q\<bar> / pow2 e < 2 ^ 53"
    using p by (simp add: field_simps)
  with near have "(of_int m::rat) < 2 ^ 53 + 1" by linarith
  then have "(of_int m::rat) < of_int (2 ^ 53 + 1)" by simp
  then have m53: "m \<le> 2 ^ 53" by (simp only: of_int_less_iff)
  have "\<bar>r\<bar> = of_int m * pow2 e"
    using m0 p by (simp add: rv abs_mult)
  with m0 m53 acc show ?thesis unfolding e_def by blast
qed

text \<open>
  Some differences as the browser computes them. The doubles nearest to 10.3 and 0.3
  differ by exactly 10. At 10 the unit in the last place is \<open>2\<^sup>-\<^sup>4\<^sup>9\<close>: a difference of
  \<open>10 + 2\<^sup>-\<^sup>5\<^sup>0\<close> lies halfway between 10 and the next double and goes to 10, whose
  significand is even; \<open>10 + 2\<^sup>-\<^sup>4\<^sup>9 + 2\<^sup>-\<^sup>5\<^sup>0\<close> lies halfway too and goes up, to
  \<open>10 + 2\<^sup>-\<^sup>4\<^sup>8\<close>; \<open>10 + 2\<^sup>-\<^sup>4\<^sup>9\<close> is a double and stays as it is.
\<close>

lemma jsSub_examples:
  "round64 (103 / 10) = Finite (2899192260119757 / 2 ^ 48)"
  "round64 (3 / 10) = Finite (5404319552844595 / 2 ^ 54)"
  "jsSub (Finite (2899192260119757 / 2 ^ 48)) (Finite (5404319552844595 / 2 ^ 54)) = Finite 10"
  "jsSub (Finite 10) (Finite (- (1 / 2 ^ 50))) = Finite 10"
  "jsSub (Finite (10 + 1 / 2 ^ 49)) (Finite (- (1 / 2 ^ 50))) = Finite (10 + 1 / 2 ^ 48)"
  "jsSub (Finite 10) (Finite (- (1 / 2 ^ 49))) = Finite (10 + 1 / 2 ^ 49)"
  "jsGreater (Finite (10 + 1 / 2 ^ 49)) (Finite 10)"
  by code_simp+

subsection \<open>Auxiliary facts\<close>

lemma hostCalls_append [simp]: "hostCalls (xs @ ys) = hostCalls xs @ hostCalls ys"
  by (induction xs rule: hostCalls.induct) simp_all

lemma domWrites_append [simp]: "domWrites (xs @ ys) = domWrites xs @ domWrites ys"
  by (induction xs rule: domWrites.induct) simp_all

lemma renderRuns_append [simp]: "renderRuns (xs @ ys) = renderRuns xs @ renderRuns ys"
  by (induction xs rule: renderRuns.induct) simp_all

lemma added_self [simp]: "added s s = []"
  by (simp add: added_def)

lemma not_handled_unchanged [simp]: "\<not> handled s (Normal, s) c"
  by (simp add: handled_def)

lemma handled_callHost:
  "handled s (Normal, callHost c (preventDefault (stopPropagation s))) c"
  by (simp add: handled_def callHost_def preventDefault_def stopPropagation_def added_def)

lemma keyDown_ArrowLeft:
  "keyOrKeyCode evt = JsString ''ArrowLeft'' \<or> keyOrKeyCode evt = JsNumber 37 \<Longrightarrow>
   keyDown v evt s = navigateLeft v s"
  by (auto simp: keyDown_def)

lemma keyDown_ArrowUp:
  "keyOrKeyCode evt = JsString ''ArrowUp'' \<or> keyOrKeyCode evt = JsNumber 38 \<Longrightarrow>
   keyDown v evt s = navigateUp v s"
  by (auto simp: keyDown_def)

lemma keyDown_ArrowRight:
  "keyOrKeyCode evt = JsString ''ArrowRight'' \<or> keyOrKeyCode evt = JsNumber 39 \<Longrightarrow>
   keyDown v evt s = navigateRight v s"
  by (auto simp: keyDown_def)

lemma keyDown_ArrowDown:
  "keyOrKeyCode evt = JsString ''ArrowDown'' \<or> keyOrKeyCode evt = JsNumber 40 \<Longrightarrow>
   keyDown v evt s = navigateDown v s"
  by (auto simp: keyDown_def)

lemma keyDown_Backspace:
  "keyOrKeyCode evt = JsString ''Backspace'' \<or> keyOrKeyCode evt = JsNumber 8 \<Longrightarrow>
   keyDown v evt s = backspace v s"
  by (auto simp: keyDown_def)

lemma keyDown_Enter:
  "keyOrKeyCode evt = JsString ''Enter'' \<or> keyOrKeyCode evt = JsNumber 13 \<Longrightarrow>
   keyDown v evt s =
     (if shiftKey evt then (Normal, s)
      else (Normal, newBlockAtSplit v (preventDefault (stopPropagation s))))"
  by (auto simp: keyDown_def)

lemma getElementRect_top:
  "clientRects v \<noteq> [] \<Longrightarrow> getElementRect ''top'' v = Some (hd (clientRects v))"
  by (simp add: getElementRect_def)

lemma getElementRect_bottom:
  "clientRects v \<noteq> [] \<Longrightarrow> getElementRect ''bottom'' v = Some (last (clientRects v))"
  by (simp add: getElementRect_def)

lemma navigateUp_present:
  assumes "clientRects v \<noteq> []" and "currentRangeRect v = Some r"
  shows "navigateUp v s =
           (if jsGreater (jsSub (rectTop r) (rectTop (hd (clientRects v)))) (Finite 10)
            then (Normal, s)
            else (Normal, callHost (OnNavigateUp (block s) r) (preventDefault (stopPropagation s))))"
  using assms by (simp add: navigateUp_def getElementRect_top Let_def)

lemma navigateDown_present:
  assumes "clientRects v \<noteq> []" and "currentRangeRect v = Some r"
  shows "navigateDown v s =
           (if jsGreater (jsSub (rectBottom (last (clientRects v))) (rectBottom r)) (Finite 10)
            then (Normal, s)
            else (Normal, callHost (OnNavigateDown (block s) r) (preventDefault (stopPropagation s))))"
  using assms by (simp add: navigateDown_def getElementRect_bottom Let_def)

lemma round64_not_NaN: "round64 q \<noteq> NaN"
  by (simp add: round64_def Let_def)

lemma jsSub_finite_not_NaN: "isFinite x \<Longrightarrow> isFinite y \<Longrightarrow> jsSub x y \<noteq> NaN"
  by (cases x; cases y) (simp_all add: round64_not_NaN)

lemma jsLessEq_not_jsGreater: "x \<noteq> NaN \<Longrightarrow> jsLessEq x (Finite t) = (\<not> jsGreater x (Finite t))"
  by (cases x) auto

lemma setBlockContentFromInput_guarded:
  "setBlockContentFromInput c True s =
     s\<lparr>isUpdatingBlockContent := False,
       block := (block s)\<lparr>lastContent := content (block s), content := Some c\<rparr>,
       trace := trace s @ (if Some c \<noteq> content (block s) then [RenderSkipped] else [])
                  @ [HostCall BlockContentUpdatedLocally False]\<rparr>"
  by (simp add: setBlockContentFromInput_def set_block_lastContent_def set_block_content_def
      renderBlockContent_def callHost_def Let_def)

lemma setBlockContentFromInput_unguarded:
  assumes "\<not> isUpdatingBlockContent s"
  shows "setBlockContentFromInput c False s =
     (if Some c = content (block s)
      then s\<lparr>block := (block s)\<lparr>lastContent := content (block s), content := Some c\<rparr>,
             trace := trace s @ [HostCall BlockContentUpdatedLocally False]\<rparr>
      else if c \<noteq> []
      then s\<lparr>block := (block s)\<lparr>lastContent := content (block s), content := Some c\<rparr>,
             element := (element s)\<lparr>childNodes := [TextNode c]\<rparr>,
             trace := trace s @ [Rendered (JqText c), HostCall BlockContentUpdatedLocally False]\<rparr>
      else s\<lparr>block := (block s)\<lparr>lastContent := content (block s), content := Some c\<rparr>,
             element := (element s)\<lparr>childNodes := [ElementNode ''BR'' []]\<rparr>,
             trace := trace s @ [Rendered (JqHtml ''<br>''), HostCall BlockContentUpdatedLocally False]\<rparr>)"
  using assms
  by (simp add: setBlockContentFromInput_def set_block_lastContent_def set_block_content_def
      renderBlockContent_def callHost_def jqText_def jqHtmlBr_def Let_def)

lemma setBlockContentFromInput_content:
  "content (block (setBlockContentFromInput c p s)) = Some c"
  by (simp add: setBlockContentFromInput_def set_block_lastContent_def set_block_content_def
      renderBlockContent_def callHost_def jqText_def jqHtmlBr_def Let_def split: option.split)

lemma setBlockContentFromInput_lastContent:
  "lastContent (block (setBlockContentFromInput c p s)) = content (block s)"
  by (simp add: setBlockContentFromInput_def set_block_lastContent_def set_block_content_def
      renderBlockContent_def callHost_def jqText_def jqHtmlBr_def Let_def split: option.split)

lemma setBlockContentFromInput_flags:
  "defaultPrevented (setBlockContentFromInput c p s) = defaultPrevented s \<and>
   propagationStopped (setBlockContentFromInput c p s) = propagationStopped s"
  by (simp add: setBlockContentFromInput_def set_block_lastContent_def set_block_content_def
      renderBlockContent_def callHost_def jqText_def jqHtmlBr_def Let_def split: option.split)

lemma setBlockContentFromInput_trace:
  "\<exists>es. trace (setBlockContentFromInput c p s) = trace s @ es \<and>
        hostCalls es = [BlockContentUpdatedLocally]"
  by (simp add: setBlockContentFromInput_def set_block_lastContent_def set_block_content_def
      renderBlockContent_def callHost_def jqText_def jqHtmlBr_def Let_def split: option.split)

lemma setBlockContentFromInput_guard:
  "isUpdatingBlockContent (setBlockContentFromInput c p s) = (\<not> p \<and> isUpdatingBlockContent s)"
  by (simp add: setBlockContentFromInput_def set_block_lastContent_def set_block_content_def
      renderBlockContent_def callHost_def jqText_def jqHtmlBr_def Let_def split: option.split)

lemma setBlockContentFromInput_last:
  "last (trace (setBlockContentFromInput c p s))
     = HostCall BlockContentUpdatedLocally (\<not> p \<and> isUpdatingBlockContent s)"
  by (simp add: setBlockContentFromInput_def set_block_lastContent_def set_block_content_def
      renderBlockContent_def callHost_def jqText_def jqHtmlBr_def Let_def split: option.split)

lemma set_block_content_renders:
  assumes "\<not> isUpdatingBlockContent s" and "x \<noteq> content (block s)"
  shows "\<exists>w. added s (set_block_content x s) = [Rendered w]"
  using assms
  by (simp add: set_block_content_def renderBlockContent_def jqText_def jqHtmlBr_def added_def
      Let_def split: option.split)

lemma newBlockAtSplit_trace:
  "\<exists>es. trace (newBlockAtSplit v s) = trace s @ es \<and>
        hostCalls es = [BlockContentUpdatedLocally,
                        NewBlockInsertedLocally (textAfterSelection (getManipulation v))]"
proof -
  obtain es where es:
    "trace (setBlockContentFromInput (textBeforeSelection (getManipulation v)) False s)
       = trace s @ es"
    "hostCalls es = [BlockContentUpdatedLocally]"
    using setBlockContentFromInput_trace by blast
  then show ?thesis
    by (simp add: newBlockAtSplit_def callHost_def Let_def)
qed

lemma newBlockAtSplit_fields:
  "content (block (newBlockAtSplit v s)) = Some (textBeforeSelection (getManipulation v)) \<and>
   defaultPrevented (newBlockAtSplit v s) = defaultPrevented s \<and>
   propagationStopped (newBlockAtSplit v s) = propagationStopped s"
  by (simp add: newBlockAtSplit_def callHost_def Let_def setBlockContentFromInput_content
      setBlockContentFromInput_flags)

lemma replaceTrailingNewline_snoc: "replaceTrailingNewline (u @ [CHR 0x0A]) = u"
  by (simp add: replaceTrailingNewline_def)

lemma replaceTrailingNewline_other:
  "\<not> (\<exists>u. t = u @ [CHR 0x0A]) \<Longrightarrow> replaceTrailingNewline t = t"
  by (metis append_butlast_last_id replaceTrailingNewline_def)

lemma guard_released_keyDown:
  "\<not> isUpdatingBlockContent s \<Longrightarrow> \<not> isUpdatingBlockContent (snd (keyDown v evt s))"
  by (simp add: keyDown_def navigateLeft_def navigateRight_def navigateUp_def navigateDown_def
      backspace_def newBlockAtSplit_def callHost_def preventDefault_def stopPropagation_def
      setBlockContentFromInput_guard Let_def split: option.split)

lemma guard_released_input:
  "\<not> isUpdatingBlockContent (snd (input v s))"
  by (simp add: input_def setBlockContentFromInput_guard)

lemma guard_released_paste:
  "\<not> isUpdatingBlockContent s \<Longrightarrow> \<not> isUpdatingBlockContent (snd (paste evt s))"
  by (simp add: paste_def execCommand_def preventDefault_def Let_def)

lemma guard_released_dispatch:
  "\<not> isUpdatingBlockContent s \<Longrightarrow> \<not> isUpdatingBlockContent (snd (dispatch d s))"
  by (cases d) (simp_all add: guard_released_keyDown guard_released_input guard_released_paste)

lemma guard_released_run:
  "\<not> isUpdatingBlockContent s \<Longrightarrow> \<not> isUpdatingBlockContent (run ds s)"
  by (induction ds arbitrary: s) (simp_all add: guard_released_dispatch)

lemma guard_released_mounted: "\<not> isUpdatingBlockContent (run ds (mounted b))"
proof -
  have "\<not> isUpdatingBlockContent (mounted b)"
    by (simp add: mounted_def didInsertElement_def renderBlockContent_def jqText_def
        jqHtmlBr_def split: option.split)
  then show ?thesis by (rule guard_released_run)
qed


subsection \<open>Arrow keys with no selection rectangle\<close>

text \<open>
  Claim C1, as amended. On an ArrowUp or ArrowDown keydown for which the selection mixin
  reports no \<^verbatim>\<open>currentRangeRect\<close>, the handler makes no host call and does not suppress
  the default action: the state is the one it was given. It does not return normally:
  reading \<^verbatim>\<open>top\<close> or \<^verbatim>\<open>bottom\<close> of the absent rectangle throws a \<^verbatim>\<open>TypeError\<close>.
\<close>

theorem arrow_without_rangeRect_throws:
  assumes k: "keyOrKeyCode evt = JsString ''ArrowUp'' \<or> keyOrKeyCode evt = JsNumber 38 \<or>
              keyOrKeyCode evt = JsString ''ArrowDown'' \<or> keyOrKeyCode evt = JsNumber 40"
    and absent: "currentRangeRect v = None"
  shows "keyDown v evt s = (Throw TypeError, s)"
proof -
  have up: "navigateUp v s = (Throw TypeError, s)"
    using absent by (simp add: navigateUp_def split: option.split)
  have down: "navigateDown v s = (Throw TypeError, s)"
    using absent by (simp add: navigateDown_def split: option.split)
  from k consider "keyOrKeyCode evt = JsString ''ArrowUp'' \<or> keyOrKeyCode evt = JsNumber 38"
    | "keyOrKeyCode evt = JsString ''ArrowDown'' \<or> keyOrKeyCode evt = JsNumber 40"
    by blast
  then show ?thesis
  proof cases
    case 1
    then show ?thesis by (simp only: keyDown_ArrowUp up)
  next
    case 2
    then show ?thesis by (simp only: keyDown_ArrowDown down)
  qed
qed

text \<open>C1, amended, at ArrowDown on the sample block with no rectangle reported.\<close>

theorem arrow_without_rangeRect_throws_witness:
  "keyOrKeyCode (keyEvent ''ArrowDown'' False) = JsString ''ArrowDown'' \<and>
   currentRangeRect (sampleEnv None ''a'' ''b'' True) = None \<and>
   keyDown (sampleEnv None ''a'' ''b'' True) (keyEvent ''ArrowDown'' False) sampleSession
     = (Throw TypeError, sampleSession)"
  using arrow_without_rangeRect_throws
    [where evt = "keyEvent ''ArrowDown'' False" and v = "sampleEnv None ''a'' ''b'' True"
       and s = sampleSession]
  by (simp add: keyOrKeyCode_def sample_defs)

text \<open>
  Claim C1 as it is stated (no fault is raised) fails: ArrowUp on the sample block, with
  no rectangle reported, ends in a thrown \<^verbatim>\<open>TypeError\<close>.
\<close>

theorem arrow_without_rangeRect_counterexample:
  "fst (keyDown (sampleEnv None ''a'' ''b'' True) (keyEvent ''ArrowUp'' False) sampleSession)
     = Throw TypeError"
  by (simp add: keyDown_def keyOrKeyCode_def navigateUp_def getElementRect_def sample_defs)

subsection \<open>Enter: the write of the split is rendered\<close>

text \<open>
  Claim C2, as amended. On Enter without Shift, \<^verbatim>\<open>newBlockAtSplit\<close> writes
  \<^verbatim>\<open>textBeforeSelection\<close> with \<^verbatim>\<open>preventRerender = false\<close>, so the guard is not held
  during the write. With the guard released on entry, and when the text written differs
  from the block's content, the render observer runs once as a consequence of that
  write, before the two host calls: it puts \<^verbatim>\<open>textBeforeSelection\<close> into the element,
  or the placeholder \<^verbatim>\<open><br>\<close> when that text is empty.
\<close>

theorem enter_split_renders:
  assumes k: "keyOrKeyCode evt = JsString ''Enter'' \<or> keyOrKeyCode evt = JsNumber 13"
    and noShift: "\<not> shiftKey evt"
    and entry: "\<not> isUpdatingBlockContent s"
    and changed: "Some (textBeforeSelection (getManipulation v)) \<noteq> content (block s)"
  shows "added s (snd (keyDown v evt s))
           = [Rendered (if textBeforeSelection (getManipulation v) \<noteq> []
                        then JqText (textBeforeSelection (getManipulation v))
                        else JqHtml ''<br>''),
              HostCall BlockContentUpdatedLocally False,
              HostCall (NewBlockInsertedLocally (textAfterSelection (getManipulation v))) False] \<and>
         childNodes (element (snd (keyDown v evt s)))
           = [if textBeforeSelection (getManipulation v) \<noteq> []
              then TextNode (textBeforeSelection (getManipulation v))
              else ElementNode ''BR'' []]"
proof -
  let ?s1 = "preventDefault (stopPropagation s)"
  have e1: "\<not> isUpdatingBlockContent ?s1"
    using entry by (simp add: preventDefault_def stopPropagation_def)
  have c1: "Some (textBeforeSelection (getManipulation v)) \<noteq> content (block ?s1)"
    using changed by (simp add: preventDefault_def stopPropagation_def)
  have t1: "trace ?s1 = trace s" and b1: "block ?s1 = block s" and el1: "element ?s1 = element s"
    by (simp_all add: preventDefault_def stopPropagation_def)
  have kd: "snd (keyDown v evt s)
      = callHost (NewBlockInsertedLocally (textAfterSelection (getManipulation v)))
          (setBlockContentFromInput (textBeforeSelection (getManipulation v)) False ?s1)"
    using noShift by (simp add: keyDown_Enter [OF k] newBlockAtSplit_def Let_def)
  show ?thesis
    unfolding kd setBlockContentFromInput_unguarded [OF e1]
    using c1 e1 by (simp add: callHost_def added_def t1 b1 el1)
qed

text \<open>C2, amended, at Enter with the caret between \<^verbatim>\<open>a\<close> and \<^verbatim>\<open>b\<close> of the sample block.\<close>

theorem enter_split_renders_witness:
  "keyOrKeyCode (keyEvent ''Enter'' False) = JsString ''Enter'' \<and>
   \<not> shiftKey (keyEvent ''Enter'' False) \<and>
   \<not> isUpdatingBlockContent sampleSession \<and>
   Some (textBeforeSelection (getManipulation (sampleEnv None ''a'' ''b'' True)))
     \<noteq> content (block sampleSession) \<and>
   added sampleSession
     (snd (keyDown (sampleEnv None ''a'' ''b'' True) (keyEvent ''Enter'' False) sampleSession))
     = [Rendered (JqText ''a''), HostCall BlockContentUpdatedLocally False,
        HostCall (NewBlockInsertedLocally ''b'') False] \<and>
   childNodes (element
     (snd (keyDown (sampleEnv None ''a'' ''b'' True) (keyEvent ''Enter'' False) sampleSession)))
     = [TextNode ''a'']"
  using enter_split_renders
    [where evt = "keyEvent ''Enter'' False" and v = "sampleEnv None ''a'' ''b'' True"
       and s = sampleSession]
  by (simp add: keyOrKeyCode_def sample_defs)

text \<open>
  Claim C2 as it is stated (the write does not run \<^verbatim>\<open>renderBlockContent\<close>) fails: on
  the sample block the observer runs during the Enter keydown and writes \<^verbatim>\<open>a\<close> to the
  element.
\<close>

theorem enter_split_render_counterexample:
  "renderRuns (added sampleSession
     (snd (keyDown (sampleEnv None ''a'' ''b'' True) (keyEvent ''Enter'' False) sampleSession)))
     = [Rendered (JqText ''a'')]"
  by (simp add: keyDown_def keyOrKeyCode_def newBlockAtSplit_def setBlockContentFromInput_def
      set_block_lastContent_def set_block_content_def renderBlockContent_def jqText_def
      callHost_def preventDefault_def stopPropagation_def added_def Let_def sample_defs)

subsection \<open>Enter and Shift+Enter\<close>

text \<open>
  Claim C3. On Enter without Shift the handler returns normally with the default action
  suppressed, the block's content is \<^verbatim>\<open>textBeforeSelection\<close>, and the host calls made
  are \<^verbatim>\<open>blockContentUpdatedLocally\<close> followed by one \<^verbatim>\<open>newBlockInsertedLocally\<close> with
  \<^verbatim>\<open>textAfterSelection\<close>. On Enter with Shift nothing is changed: the default action is
  not suppressed and no host call is made.
\<close>

theorem enter_splits_block:
  assumes k: "keyOrKeyCode evt = JsString ''Enter'' \<or> keyOrKeyCode evt = JsNumber 13"
  shows "(\<not> shiftKey evt \<longrightarrow>
            fst (keyDown v evt s) = Normal \<and>
            defaultPrevented (snd (keyDown v evt s)) \<and>
            content (block (snd (keyDown v evt s)))
              = Some (textBeforeSelection (getManipulation v)) \<and>
            hostCalls (added s (snd (keyDown v evt s)))
              = [BlockContentUpdatedLocally,
                 NewBlockInsertedLocally (textAfterSelection (getManipulation v))]) \<and>
         (shiftKey evt \<longrightarrow> keyDown v evt s = (Normal, s))"
proof -
  let ?s1 = "preventDefault (stopPropagation s)"
  obtain es where es: "trace (newBlockAtSplit v ?s1) = trace ?s1 @ es"
    "hostCalls es = [BlockContentUpdatedLocally,
                     NewBlockInsertedLocally (textAfterSelection (getManipulation v))]"
    using newBlockAtSplit_trace by blast
  have t: "trace ?s1 = trace s"
    by (simp add: preventDefault_def stopPropagation_def)
  have calls: "hostCalls (added s (newBlockAtSplit v ?s1))
     = [BlockContentUpdatedLocally,
        NewBlockInsertedLocally (textAfterSelection (getManipulation v))]"
    using es t by (simp add: added_def)
  have p: "defaultPrevented (newBlockAtSplit v ?s1)"
    by (simp add: newBlockAtSplit_fields preventDefault_def stopPropagation_def)
  show ?thesis
    using calls p by (simp add: keyDown_Enter [OF k] newBlockAtSplit_fields)
qed

text \<open>C3 on the sample block: Enter, and Shift+Enter given by its legacy key code 13.\<close>

theorem enter_splits_block_witness:
  "keyOrKeyCode (keyEvent ''Enter'' False) = JsString ''Enter'' \<and>
   keyOrKeyCode \<lparr>key = None, keyCode = 13, shiftKey = True, clipboardData = []\<rparr> = JsNumber 13 \<and>
   defaultPrevented
     (snd (keyDown (sampleEnv None ''a'' ''b'' True) (keyEvent ''Enter'' False) sampleSession)) \<and>
   content (block
     (snd (keyDown (sampleEnv None ''a'' ''b'' True) (keyEvent ''Enter'' False) sampleSession)))
     = Some ''a'' \<and>
   hostCalls (added sampleSession
     (snd (keyDown (sampleEnv None ''a'' ''b'' True) (keyEvent ''Enter'' False) sampleSession)))
     = [BlockContentUpdatedLocally, NewBlockInsertedLocally ''b''] \<and>
   keyDown (sampleEnv None ''a'' ''b'' True)
     \<lparr>key = None, keyCode = 13, shiftKey = True, clipboardData = []\<rparr> sampleSession
     = (Normal, sampleSession)"
  using enter_splits_block
    [where evt = "keyEvent ''Enter'' False" and v = "sampleEnv None ''a'' ''b'' True"
       and s = sampleSession]
    enter_splits_block
    [where evt = "\<lparr>key = None, keyCode = 13, shiftKey = True, clipboardData = []\<rparr>"
       and v = "sampleEnv None ''a'' ''b'' True" and s = sampleSession]
  by (simp add: keyOrKeyCode_def sample_defs)

subsection \<open>Backspace\<close>

text \<open>
  Claim C4. On a Backspace keydown the handler takes the event over with the one call
  \<^verbatim>\<open>onBlockDeletedLocally(block, textAfterSelection)\<close>, the default action suppressed,
  if and only if \<^verbatim>\<open>textBeforeSelection\<close> is empty and the selection is collapsed. In
  every other state it changes nothing: no host call, and the default deletion proceeds.
\<close>

theorem backspace_deletes_iff_at_start:
  assumes k: "keyOrKeyCode evt = JsString ''Backspace'' \<or> keyOrKeyCode evt = JsNumber 8"
  shows "handled s (keyDown v evt s)
           (OnBlockDeletedLocally (block s) (textAfterSelection (getManipulation v)))
         = (textBeforeSelection (getManipulation v) = [] \<and> selectionIsCollapsed v) \<and>
        (\<not> (textBeforeSelection (getManipulation v) = [] \<and> selectionIsCollapsed v) \<longrightarrow>
           keyDown v evt s = (Normal, s))"
  by (auto simp: keyDown_Backspace [OF k] backspace_def Let_def handled_callHost)

text \<open>
  C4 on the sample block: the caret at the start of the block, the caret after \<^verbatim>\<open>a\<close>,
  and a non-empty selection that begins at the start of the block.
\<close>

theorem backspace_deletes_iff_at_start_witness:
  "keyOrKeyCode (keyEvent ''Backspace'' False) = JsString ''Backspace'' \<and>
   handled sampleSession
     (keyDown (sampleEnv None [] ''ab'' True) (keyEvent ''Backspace'' False) sampleSession)
     (OnBlockDeletedLocally sampleBlock ''ab'') \<and>
   keyDown (sampleEnv None ''a'' ''b'' True) (keyEvent ''Backspace'' False) sampleSession
     = (Normal, sampleSession) \<and>
   keyDown (sampleEnv None [] ''b'' False) (keyEvent ''Backspace'' False) sampleSession
     = (Normal, sampleSession)"
  using backspace_deletes_iff_at_start
    [where evt = "keyEvent ''Backspace'' False" and v = "sampleEnv None [] ''ab'' True"
       and s = sampleSession]
    backspace_deletes_iff_at_start
    [where evt = "keyEvent ''Backspace'' False" and v = "sampleEnv None ''a'' ''b'' True"
       and s = sampleSession]
    backspace_deletes_iff_at_start
    [where evt = "keyEvent ''Backspace'' False" and v = "sampleEnv None [] ''b'' False"
       and s = sampleSession]
  by (simp add: keyOrKeyCode_def sample_defs)

subsection \<open>ArrowUp and ArrowDown: the threshold of 10 pixels\<close>

text \<open>
  Claim C5. The element has client rectangles, the selection has a rectangle \<open>r\<close>, and
  the coordinates compared are finite numbers, as layout reports them. An ArrowUp keydown
  is taken over with the one call \<^verbatim>\<open>onNavigateUp(block, r)\<close>, the default action
  suppressed, if and only if the distance is at most 10, where the distance is what the
  handler computes: \<^verbatim>\<open>r.top\<close> minus the top of the element's first rectangle, in double
  arithmetic. An ArrowDown keydown is taken over with \<^verbatim>\<open>onNavigateDown(block, r)\<close> if
  and only if the bottom of the element's last rectangle minus \<^verbatim>\<open>r.bottom\<close> is at most
  10. Beyond 10 the handler changes nothing.
\<close>

theorem vertical_navigation_threshold:
  assumes rects: "clientRects v \<noteq> []" and range: "currentRangeRect v = Some r"
  shows "(keyOrKeyCode evt = JsString ''ArrowUp'' \<or> keyOrKeyCode evt = JsNumber 38 \<longrightarrow>
          isFinite (rectTop r) \<longrightarrow> isFinite (rectTop (hd (clientRects v))) \<longrightarrow>
            handled s (keyDown v evt s) (OnNavigateUp (block s) r)
              = jsLessEq (jsSub (rectTop r) (rectTop (hd (clientRects v)))) (Finite 10) \<and>
            (\<not> jsLessEq (jsSub (rectTop r) (rectTop (hd (clientRects v)))) (Finite 10) \<longrightarrow>
               keyDown v evt s = (Normal, s))) \<and>
         (keyOrKeyCode evt = JsString ''ArrowDown'' \<or> keyOrKeyCode evt = JsNumber 40 \<longrightarrow>
          isFinite (rectBottom (last (clientRects v))) \<longrightarrow> isFinite (rectBottom r) \<longrightarrow>
            handled s (keyDown v evt s) (OnNavigateDown (block s) r)
              = jsLessEq (jsSub (rectBottom (last (clientRects v))) (rectBottom r)) (Finite 10) \<and>
            (\<not> jsLessEq (jsSub (rectBottom (last (clientRects v))) (rectBottom r)) (Finite 10) \<longrightarrow>
               keyDown v evt s = (Normal, s)))"
proof (intro conjI impI)
  let ?d = "jsSub (rectTop r) (rectTop (hd (clientRects v)))"
  assume k: "keyOrKeyCode evt = JsString ''ArrowUp'' \<or> keyOrKeyCode evt = JsNumber 38"
    and fin: "isFinite (rectTop r)" "isFinite (rectTop (hd (clientRects v)))"
  have le: "jsLessEq ?d (Finite 10) = (\<not> jsGreater ?d (Finite 10))"
    using fin by (intro jsLessEq_not_jsGreater jsSub_finite_not_NaN)
  show "handled s (keyDown v evt s) (OnNavigateUp (block s) r) = jsLessEq ?d (Finite 10)"
    by (simp add: le keyDown_ArrowUp [OF k] navigateUp_present [OF rects range] handled_callHost)
  show "keyDown v evt s = (Normal, s)" if "\<not> jsLessEq ?d (Finite 10)"
    using that by (simp add: le keyDown_ArrowUp [OF k] navigateUp_present [OF rects range])
next
  let ?d = "jsSub (rectBottom (last (clientRects v))) (rectBottom r)"
  assume k: "keyOrKeyCode evt = JsString ''ArrowDown'' \<or> keyOrKeyCode evt = JsNumber 40"
    and fin: "isFinite (rectBottom (last (clientRects v)))" "isFinite (rectBottom r)"
  have le: "jsLessEq ?d (Finite 10) = (\<not> jsGreater ?d (Finite 10))"
    using fin by (intro jsLessEq_not_jsGreater jsSub_finite_not_NaN)
  show "handled s (keyDown v evt s) (OnNavigateDown (block s) r) = jsLessEq ?d (Finite 10)"
    by (simp add: le keyDown_ArrowDown [OF k] navigateDown_present [OF rects range] handled_callHost)
  show "keyDown v evt s = (Normal, s)" if "\<not> jsLessEq ?d (Finite 10)"
    using that by (simp add: le keyDown_ArrowDown [OF k] navigateDown_present [OF rects range])
qed

text \<open>
  C5 on the sample block, whose lines span 100 to 200 pixels: a caret 9 pixels below the
  top goes to the previous block and one 11 pixels below stays; a caret 9 pixels above
  the bottom goes to the next block and one 11 pixels above stays. The last case has the
  element's top at \<open>-2\<^sup>-\<^sup>6\<^sup>0\<close> and the caret's at 10: the difference, which exceeds 10,
  is rounded to the double 10, so the caret goes to the previous block.
\<close>

theorem vertical_navigation_threshold_witness:
  "clientRects (sampleEnv (Some (caretAt 109 125)) ''a'' ''b'' True) \<noteq> [] \<and>
   currentRangeRect (sampleEnv (Some (caretAt 109 125)) ''a'' ''b'' True)
     = Some (caretAt 109 125) \<and>
   keyOrKeyCode (keyEvent ''ArrowUp'' False) = JsString ''ArrowUp'' \<and>
   keyOrKeyCode (keyEvent ''ArrowDown'' False) = JsString ''ArrowDown'' \<and>
   jsSub (Finite 109) (Finite 100) = Finite 9 \<and>
   jsSub (Finite 111) (Finite 100) = Finite 11 \<and>
   jsSub (Finite 200) (Finite 191) = Finite 9 \<and>
   jsSub (Finite 200) (Finite 189) = Finite 11 \<and>
   (10::rat) < 10 - justAbove \<and>
   jsSub (Finite 10) (Finite justAbove) = Finite 10 \<and>
   handled sampleSession
     (keyDown (sampleEnv (Some (caretAt 109 125)) ''a'' ''b'' True)
        (keyEvent ''ArrowUp'' False) sampleSession)
     (OnNavigateUp sampleBlock (caretAt 109 125)) \<and>
   keyDown (sampleEnv (Some (caretAt 111 127)) ''a'' ''b'' True)
     (keyEvent ''ArrowUp'' False) sampleSession = (Normal, sampleSession) \<and>
   handled sampleSession
     (keyDown (sampleEnv (Some (caretAt 175 191)) ''a'' ''b'' True)
        (keyEvent ''ArrowDown'' False) sampleSession)
     (OnNavigateDown sampleBlock (caretAt 175 191)) \<and>
   keyDown (sampleEnv (Some (caretAt 173 189)) ''a'' ''b'' True)
     (keyEvent ''ArrowDown'' False) sampleSession = (Normal, sampleSession) \<and>
   handled sampleSession
     (keyDown ((sampleEnv (Some (caretAt 10 26)) ''a'' ''b'' True)
                 \<lparr>clientRects := [lineBox justAbove 100]\<rparr>)
        (keyEvent ''ArrowUp'' False) sampleSession)
     (OnNavigateUp sampleBlock (caretAt 10 26))"
proof -
  have d: "jsSub (Finite 109) (Finite 100) = Finite 9"
    "jsSub (Finite 111) (Finite 100) = Finite 11"
    "jsSub (Finite 200) (Finite 191) = Finite 9"
    "jsSub (Finite 200) (Finite 189) = Finite 11"
    by (simp_all add: round64_eval)
  have rounded: "jsSub (Finite 10) (Finite justAbove) = Finite 10"
    by code_simp
  have exact: "(10::rat) < 10 - justAbove"
    by (simp add: justAbove_def)
  show ?thesis
    using vertical_navigation_threshold
      [where evt = "keyEvent ''ArrowUp'' False" and r = "caretAt 109 125"
         and v = "sampleEnv (Some (caretAt 109 125)) ''a'' ''b'' True" and s = sampleSession]
      vertical_navigation_threshold
      [where evt = "keyEvent ''ArrowUp'' False" and r = "caretAt 111 127"
         and v = "sampleEnv (Some (caretAt 111 127)) ''a'' ''b'' True" and s = sampleSession]
      vertical_navigation_threshold
      [where evt = "keyEvent ''ArrowDown'' False" and r = "caretAt 175 191"
         and v = "sampleEnv (Some (caretAt 175 191)) ''a'' ''b'' True" and s = sampleSession]
      vertical_navigation_threshold
      [where evt = "keyEvent ''ArrowDown'' False" and r = "caretAt 173 189"
         and v = "sampleEnv (Some (caretAt 173 189)) ''a'' ''b'' True" and s = sampleSession]
      vertical_navigation_threshold
      [where evt = "keyEvent ''ArrowUp'' False" and r = "caretAt 10 26"
         and v = "(sampleEnv (Some (caretAt 10 26)) ''a'' ''b'' True)
                    \<lparr>clientRects := [lineBox justAbove 100]\<rparr>"
         and s = sampleSession]
    by (simp add: keyOrKeyCode_def sample_defs d rounded exact del: jsSub.simps)
qed

subsection \<open>ArrowLeft and ArrowRight\<close>

text \<open>
  Claim C6. An ArrowLeft keydown is taken over with the one call \<^verbatim>\<open>onNavigateLeft(block)\<close>,
  the default action suppressed, if and only if \<^verbatim>\<open>textBeforeSelection\<close> is empty; when
  it is not empty the handler changes nothing, so \<^verbatim>\<open>onNavigateLeft\<close> is not called. The
  same holds for ArrowRight, \<^verbatim>\<open>onNavigateRight\<close> and \<^verbatim>\<open>textAfterSelection\<close>.
\<close>

theorem horizontal_navigation_at_edge:
  "(keyOrKeyCode evt = JsString ''ArrowLeft'' \<or> keyOrKeyCode evt = JsNumber 37 \<longrightarrow>
      handled s (keyDown v evt s) (OnNavigateLeft (block s))
        = (textBeforeSelection (getManipulation v) = []) \<and>
      (textBeforeSelection (getManipulation v) \<noteq> [] \<longrightarrow> keyDown v evt s = (Normal, s))) \<and>
   (keyOrKeyCode evt = JsString ''ArrowRight'' \<or> keyOrKeyCode evt = JsNumber 39 \<longrightarrow>
      handled s (keyDown v evt s) (OnNavigateRight (block s))
        = (textAfterSelection (getManipulation v) = []) \<and>
      (textAfterSelection (getManipulation v) \<noteq> [] \<longrightarrow> keyDown v evt s = (Normal, s)))"
proof (intro conjI impI)
  assume k: "keyOrKeyCode evt = JsString ''ArrowLeft'' \<or> keyOrKeyCode evt = JsNumber 37"
  show "handled s (keyDown v evt s) (OnNavigateLeft (block s))
        = (textBeforeSelection (getManipulation v) = [])"
    by (simp add: keyDown_ArrowLeft [OF k] navigateLeft_def handled_callHost)
  show "keyDown v evt s = (Normal, s)" if "textBeforeSelection (getManipulation v) \<noteq> []"
    using that by (simp add: keyDown_ArrowLeft [OF k] navigateLeft_def)
next
  assume k: "keyOrKeyCode evt = JsString ''ArrowRight'' \<or> keyOrKeyCode evt = JsNumber 39"
  show "handled s (keyDown v evt s) (OnNavigateRight (block s))
        = (textAfterSelection (getManipulation v) = [])"
    by (simp add: keyDown_ArrowRight [OF k] navigateRight_def handled_callHost)
  show "keyDown v evt s = (Normal, s)" if "textAfterSelection (getManipulation v) \<noteq> []"
    using that by (simp add: keyDown_ArrowRight [OF k] navigateRight_def)
qed

text \<open>C6 on the sample block, with the caret at the start, in the middle and at the end.\<close>

theorem horizontal_navigation_at_edge_witness:
  "keyOrKeyCode (keyEvent ''ArrowLeft'' False) = JsString ''ArrowLeft'' \<and>
   keyOrKeyCode (keyEvent ''ArrowRight'' False) = JsString ''ArrowRight'' \<and>
   handled sampleSession
     (keyDown (sampleEnv None [] ''ab'' True) (keyEvent ''ArrowLeft'' False) sampleSession)
     (OnNavigateLeft sampleBlock) \<and>
   keyDown (sampleEnv None ''a'' ''b'' True) (keyEvent ''ArrowLeft'' False) sampleSession
     = (Normal, sampleSession) \<and>
   handled sampleSession
     (keyDown (sampleEnv None ''ab'' [] True) (keyEvent ''ArrowRight'' False) sampleSession)
     (OnNavigateRight sampleBlock) \<and>
   keyDown (sampleEnv None ''a'' ''b'' True) (keyEvent ''ArrowRight'' False) sampleSession
     = (Normal, sampleSession)"
  using horizontal_navigation_at_edge
    [where evt = "keyEvent ''ArrowLeft'' False" and v = "sampleEnv None [] ''ab'' True"
       and s = sampleSession]
    horizontal_navigation_at_edge
    [where evt = "keyEvent ''ArrowLeft'' False" and v = "sampleEnv None ''a'' ''b'' True"
       and s = sampleSession]
    horizontal_navigation_at_edge
    [where evt = "keyEvent ''ArrowRight'' False" and v = "sampleEnv None ''ab'' [] True"
       and s = sampleSession]
    horizontal_navigation_at_edge
    [where evt = "keyEvent ''ArrowRight'' False" and v = "sampleEnv None ''a'' ''b'' True"
       and s = sampleSession]
  by (simp add: keyOrKeyCode_def sample_defs)

subsection \<open>The guarded write\<close>

text \<open>
  Claim C7. A call of \<^verbatim>\<open>setBlockContentFromInput\<close> with \<^verbatim>\<open>preventRerender = true\<close>
  leaves the element as it was and writes nothing to the DOM: the only run of the render
  observer it causes, when the content changes, finds the guard set and is skipped.
\<close>

theorem guarded_write_skips_render:
  "element (setBlockContentFromInput c True s) = element s \<and>
   domWrites (added s (setBlockContentFromInput c True s)) = [] \<and>
   renderRuns (added s (setBlockContentFromInput c True s))
     = (if Some c \<noteq> content (block s) then [RenderSkipped] else [])"
  by (simp add: setBlockContentFromInput_guarded added_def)

text \<open>C7 when the user has typed \<^verbatim>\<open>c\<close> at the end of the sample block.\<close>

theorem guarded_write_skips_render_witness:
  "element (setBlockContentFromInput ''abc'' True sampleSession) = element sampleSession \<and>
   domWrites (added sampleSession (setBlockContentFromInput ''abc'' True sampleSession)) = [] \<and>
   renderRuns (added sampleSession (setBlockContentFromInput ''abc'' True sampleSession))
     = [RenderSkipped]"
  using guarded_write_skips_render [where c = "''abc''" and s = sampleSession]
  by (simp add: sample_defs)

subsection \<open>Paste\<close>

text \<open>
  Claim C8. A paste suppresses the default action, so the browser inserts nothing of its
  own, and sends one command to the document, \<^verbatim>\<open>insertText\<close>, with the clipboard's
  \<^verbatim>\<open>text/plain\<close> entry (the empty string when there is none); this is all it does. Two
  paste events whose \<^verbatim>\<open>text/plain\<close> entries are equal have the same outcome, whatever
  their other entries, \<^verbatim>\<open>text/html\<close> among them, hold.
\<close>

theorem paste_inserts_plain_text_only:
  "fst (paste evt s) = Normal \<and>
   defaultPrevented (snd (paste evt s)) \<and>
   snd (paste evt s)
     = s\<lparr>defaultPrevented := True,
         trace := trace s @ [ExecCommand ''insertText'' (getData (clipboardData evt) ''text/plain'')]\<rparr> \<and>
   (map_of (clipboardData evt) ''text/plain'' = Some t \<longrightarrow>
      added s (snd (paste evt s)) = [ExecCommand ''insertText'' t]) \<and>
   (map_of (clipboardData evt) ''text/plain'' = None \<longrightarrow>
      added s (snd (paste evt s)) = [ExecCommand ''insertText'' []]) \<and>
   (map_of (clipboardData evt) ''text/plain'' = map_of (clipboardData evt') ''text/plain'' \<longrightarrow>
      paste evt s = paste evt' s)"
  by (simp add: paste_def getData_def execCommand_def preventDefault_def added_def Let_def)

text \<open>C8 for two clipboards with the same plain text and different HTML.\<close>

theorem paste_inserts_plain_text_only_witness:
  "map_of (clipboardData (pasteEvent [(''text/html'', ''<b>x</b>''), (''text/plain'', ''x'')]))
     ''text/plain'' = Some ''x'' \<and>
   map_of (clipboardData (pasteEvent [(''text/plain'', ''x''), (''text/html'', ''<i>x</i>'')]))
     ''text/plain'' = Some ''x'' \<and>
   \<not> defaultPrevented sampleSession \<and>
   defaultPrevented
     (snd (paste (pasteEvent [(''text/html'', ''<b>x</b>''), (''text/plain'', ''x'')])
        sampleSession)) \<and>
   added sampleSession
     (snd (paste (pasteEvent [(''text/html'', ''<b>x</b>''), (''text/plain'', ''x'')])
        sampleSession))
     = [ExecCommand ''insertText'' ''x''] \<and>
   paste (pasteEvent [(''text/html'', ''<b>x</b>''), (''text/plain'', ''x'')]) sampleSession
     = paste (pasteEvent [(''text/plain'', ''x''), (''text/html'', ''<i>x</i>'')]) sampleSession"
proof -
  let ?rich = "pasteEvent [(''text/html'', ''<b>x</b>''), (''text/plain'', ''x'')]"
  let ?other = "pasteEvent [(''text/plain'', ''x''), (''text/html'', ''<i>x</i>'')]"
  have rich: "map_of (clipboardData ?rich) ''text/plain'' = Some ''x''"
    by (simp add: pasteEvent_def)
  have other: "map_of (clipboardData ?other) ''text/plain'' = Some ''x''"
    by (simp add: pasteEvent_def)
  have before: "\<not> defaultPrevented sampleSession"
    by (simp add: sampleSession_def)
  note plain = paste_inserts_plain_text_only
    [where evt = ?rich and evt' = ?other and t = "''x''" and s = sampleSession]
  have prevented: "defaultPrevented (snd (paste ?rich sampleSession))"
    using plain by blast
  have inserted: "added sampleSession (snd (paste ?rich sampleSession))
                    = [ExecCommand ''insertText'' ''x'']"
    using plain rich by blast
  have same: "paste ?rich sampleSession = paste ?other sampleSession"
    using plain rich other by simp
  show ?thesis
    using rich other before prevented inserted same by blast
qed

subsection \<open>The text of the element\<close>

text \<open>
  Claim C9. For an element whose only child is a node named \<^verbatim>\<open>BR\<close>,
  \<^verbatim>\<open>getElementText\<close> returns the empty string. For every other element it returns the
  rendered text, which is \<^verbatim>\<open>innerText\<close> when that is present and not empty and otherwise
  \<^verbatim>\<open>textContent\<close>, the text of the element's text nodes in document order: as it is when
  the browser is not Firefox; on Firefox without its last character when that is a
  newline, and as it is otherwise.
\<close>

theorem getElementText_placeholder_and_text:
  "((\<exists>n. childNodes e = [n] \<and> nodeName n = ''BR'') \<longrightarrow> getElementText v e = []) \<and>
   (\<not> (\<exists>n. childNodes e = [n] \<and> nodeName n = ''BR'') \<longrightarrow>
      (\<forall>text.
         (innerText v = Some text \<and> text \<noteq> []) \<or>
         ((innerText v = None \<or> innerText v = Some []) \<and>
          text = concat (map nodeTextContent (childNodes e))) \<longrightarrow>
         (\<not> isFirefox v \<longrightarrow> getElementText v e = text) \<and>
         (isFirefox v \<longrightarrow>
            (\<forall>u. text = u @ [CHR 0x0A] \<longrightarrow> getElementText v e = u) \<and>
            (\<not> (\<exists>u. text = u @ [CHR 0x0A]) \<longrightarrow> getElementText v e = text))))"
proof -
  have one: "(length (childNodes e) = 1 \<and> nodeName (hd (childNodes e)) = ''BR'')
             = (\<exists>n. childNodes e = [n] \<and> nodeName n = ''BR'')"
    by (cases "childNodes e") auto
  show ?thesis
    unfolding getElementText_def one Let_def textContent_def
    by (auto simp: replaceTrailingNewline_snoc replaceTrailingNewline_other)
qed

text \<open>
  C9 for the placeholder; for an element whose \<^verbatim>\<open>innerText\<close> (\<^verbatim>\<open>ab\<close>) differs from the
  text of its nodes (\<^verbatim>\<open>xyz\<close>), where \<^verbatim>\<open>innerText\<close> is returned, on Firefox too; and, with
  no \<^verbatim>\<open>innerText\<close>, for node text ending in two newlines on Firefox (one is removed) and
  on another browser (none is).
\<close>

theorem getElementText_placeholder_and_text_witness:
  "getElementText (sampleEnv None [] [] True) \<lparr>childNodes = [ElementNode ''BR'' []]\<rparr> = [] \<and>
   innerText (sampleEnv None [] [] True) = Some ''ab'' \<and>
   getElementText (sampleEnv None [] [] True) \<lparr>childNodes = [TextNode ''xyz'']\<rparr> = ''ab'' \<and>
   getElementText ((sampleEnv None [] [] True)\<lparr>isFirefox := True\<rparr>)
     \<lparr>childNodes = [TextNode ''xyz'']\<rparr> = ''ab'' \<and>
   getElementText ((sampleEnv None [] [] True)\<lparr>innerText := Some []\<rparr>)
     \<lparr>childNodes = [TextNode ''xyz'']\<rparr> = ''xyz'' \<and>
   getElementText ((sampleEnv None [] [] True)\<lparr>isFirefox := True, innerText := None\<rparr>)
     \<lparr>childNodes = [TextNode [CHR ''a'', CHR 0x0A], ElementNode ''BR'' [], TextNode [CHR 0x0A]]\<rparr>
     = [CHR ''a'', CHR 0x0A] \<and>
   getElementText ((sampleEnv None [] [] True)\<lparr>innerText := None\<rparr>)
     \<lparr>childNodes = [TextNode [CHR ''a'', CHR 0x0A], ElementNode ''BR'' [], TextNode [CHR 0x0A]]\<rparr>
     = [CHR ''a'', CHR 0x0A, CHR 0x0A]"
  using getElementText_placeholder_and_text
    [where v = "sampleEnv None [] [] True" and e = "\<lparr>childNodes = [ElementNode ''BR'' []]\<rparr>"]
    getElementText_placeholder_and_text
    [where v = "sampleEnv None [] [] True" and e = "\<lparr>childNodes = [TextNode ''xyz'']\<rparr>"]
    getElementText_placeholder_and_text
    [where v = "(sampleEnv None [] [] True)\<lparr>isFirefox := True\<rparr>"
       and e = "\<lparr>childNodes = [TextNode ''xyz'']\<rparr>"]
    getElementText_placeholder_and_text
    [where v = "(sampleEnv None [] [] True)\<lparr>innerText := Some []\<rparr>"
       and e = "\<lparr>childNodes = [TextNode ''xyz'']\<rparr>"]
    getElementText_placeholder_and_text
    [where v = "(sampleEnv None [] [] True)\<lparr>isFirefox := True, innerText := None\<rparr>"
       and e = "\<lparr>childNodes = [TextNode [CHR ''a'', CHR 0x0A], ElementNode ''BR'' [],
                                TextNode [CHR 0x0A]]\<rparr>"]
    getElementText_placeholder_and_text
    [where v = "(sampleEnv None [] [] True)\<lparr>innerText := None\<rparr>"
       and e = "\<lparr>childNodes = [TextNode [CHR ''a'', CHR 0x0A], ElementNode ''BR'' [],
                                TextNode [CHR 0x0A]]\<rparr>"]
  by (simp add: sample_defs)

subsection \<open>The guard, the snapshot and the notification\<close>

text \<open>
  Claim C10. A call of \<^verbatim>\<open>setBlockContentFromInput\<close>, with either value of
  \<^verbatim>\<open>preventRerender\<close>, made with the guard released as it is between any two handlers,
  returns with the guard released; \<^verbatim>\<open>block.lastContent\<close> holds the content the block had
  before the call and \<^verbatim>\<open>block.content\<close> the new one; \<^verbatim>\<open>blockContentUpdatedLocally\<close> is
  the one host call made, it is the last thing done, and the guard is released when it
  is made. So a write of a different content to the block in that state runs the render
  observer, which writes to the DOM.
\<close>

theorem setBlockContentFromInput_guard_and_notification:
  assumes entry: "\<not> isUpdatingBlockContent s"
    and s': "s' = setBlockContentFromInput c p s"
  shows "\<not> isUpdatingBlockContent s' \<and>
         lastContent (block s') = content (block s) \<and>
         content (block s') = Some c \<and>
         hostCalls (added s s') = [BlockContentUpdatedLocally] \<and>
         last (trace s') = HostCall BlockContentUpdatedLocally False \<and>
         (\<forall>x. x \<noteq> content (block s') \<longrightarrow> (\<exists>w. added s' (set_block_content x s') = [Rendered w]))"
proof -
  have g: "\<not> isUpdatingBlockContent s'"
    using entry by (simp add: s' setBlockContentFromInput_guard)
  obtain es where es: "trace s' = trace s @ es" "hostCalls es = [BlockContentUpdatedLocally]"
    using setBlockContentFromInput_trace [of c p s] unfolding s' by blast
  have calls: "hostCalls (added s s') = [BlockContentUpdatedLocally]"
    using es by (simp add: added_def)
  have l: "last (trace s') = HostCall BlockContentUpdatedLocally False"
    using entry by (simp add: s' setBlockContentFromInput_last)
  have w: "\<forall>x. x \<noteq> content (block s') \<longrightarrow> (\<exists>w. added s' (set_block_content x s') = [Rendered w])"
    using set_block_content_renders [OF g] by blast
  show ?thesis
    using g calls l w
    by (simp add: s' setBlockContentFromInput_lastContent setBlockContentFromInput_content)
qed

text \<open>C10 for the write of the Enter path (\<^verbatim>\<open>preventRerender = false\<close>) on the sample block.\<close>

theorem setBlockContentFromInput_guard_and_notification_witness:
  "\<not> isUpdatingBlockContent sampleSession \<and>
   \<not> isUpdatingBlockContent (setBlockContentFromInput ''a'' False sampleSession) \<and>
   lastContent (block (setBlockContentFromInput ''a'' False sampleSession)) = Some ''ab'' \<and>
   content (block (setBlockContentFromInput ''a'' False sampleSession)) = Some ''a'' \<and>
   hostCalls (added sampleSession (setBlockContentFromInput ''a'' False sampleSession))
     = [BlockContentUpdatedLocally] \<and>
   last (trace (setBlockContentFromInput ''a'' False sampleSession))
     = HostCall BlockContentUpdatedLocally False \<and>
   Some ''z'' \<noteq> content (block (setBlockContentFromInput ''a'' False sampleSession)) \<and>
   added (setBlockContentFromInput ''a'' False sampleSession)
     (set_block_content (Some ''z'') (setBlockContentFromInput ''a'' False sampleSession))
     = [Rendered (JqText ''z'')]"
proof -
  have entry: "\<not> isUpdatingBlockContent sampleSession"
    by (simp add: sampleSession_def)
  note call = setBlockContentFromInput_guard_and_notification [OF entry refl, of "''a''" False]
  have hostWrite:
    "added (setBlockContentFromInput ''a'' False sampleSession)
       (set_block_content (Some ''z'') (setBlockContentFromInput ''a'' False sampleSession))
       = [Rendered (JqText ''z'')]"
    unfolding setBlockContentFromInput_unguarded [OF entry]
    by (simp add: set_block_content_def renderBlockContent_def jqText_def added_def Let_def
        sample_defs)
  have before: "content (block sampleSession) = Some ''ab''"
    by (simp add: sample_defs)
  show ?thesis
    using entry call hostWrite before by simp
qed

end
